theory Spec2Isabelle
  imports Complex_Main "HOL-Library.Multiset"
begin

section \<open>Data model\<close>

text \<open>
  A card object as \<^verbatim>\<open>createCard\<close> (db.js) builds it. JavaScript numbers are modelled
  exactly: \<^verbatim>\<open>easeFactor\<close> is a real number (no rounding error of IEEE doubles, no NaN),
  \<^verbatim>\<open>interval\<close> an integer, \<^verbatim>\<open>repetitions\<close> a natural number (the counter is never
  negative). The doubles of the program miss these reals in their last digits; where a
  claim is about the value of a computed ease, that value is stated with a tolerance.
  Dates are milliseconds since the epoch; an ISO string written by
  \<^verbatim>\<open>toISOString\<close> and read back by \<^verbatim>\<open>new Date\<close> is the same instant, so the string
  form is left out. The fields \<^verbatim>\<open>id\<close> and \<^verbatim>\<open>back\<close> are renamed, both names being taken.
\<close>

record card =
  card_id :: string
  front :: string
  back_text :: string
  interval :: int
  easeFactor :: real
  repetitions :: nat
  dueDate :: int
  lastReviewed :: "int option"
  createdAt :: int

text \<open>\<^verbatim>\<open>createCard(front, back)\<close>; the random UUID and the clock are inputs.\<close>

definition createCard :: "string \<Rightarrow> int \<Rightarrow> string \<Rightarrow> string \<Rightarrow> card" where
  "createCard uuid now f b =
     \<lparr>card_id = uuid, front = f, back_text = b, interval = 0, easeFactor = 2.5,
      repetitions = 0, dueDate = now, lastReviewed = None, createdAt = now\<rparr>"

text \<open>\<^verbatim>\<open>Math.round\<close>: the nearest integer, a half rounding up.\<close>

definition Math_round :: "real \<Rightarrow> int" where
  "Math_round x = \<lfloor>x + 1 / 2\<rfloor>"

text \<open>
  \<^verbatim>\<open>d = new Date(now); d.setDate(d.getDate() + n)\<close> moves a date by \<open>n\<close> calendar days
  of the local time zone. The calendar is a parameter \<open>addDays\<close> of the engine;
  \<open>utcDays\<close> is the calendar of a zone without clock changes.
\<close>

definition utcDays :: "int \<Rightarrow> int \<Rightarrow> int" where
  "utcDays t n = t + n * 86400000"

section \<open>The policy engine, flat schedule (js/sm2.js)\<close>

definition calculateNextReview :: "(int \<Rightarrow> int \<Rightarrow> int) \<Rightarrow> int \<Rightarrow> card \<Rightarrow> int \<Rightarrow> card" where
  "calculateNextReview addDays now c quality =
     (let updated = c\<lparr>lastReviewed := Some now\<rparr> in
      if quality < 3 then
        updated\<lparr>repetitions := 0, interval := 0, dueDate := now + 60 * 1000\<rparr>
      else
        let newEF = easeFactor updated
                      + (0.1 - (5 - real_of_int quality) * (0.08 + (5 - real_of_int quality) * 0.02));
            updated = updated\<lparr>easeFactor := max 1.3 newEF\<rparr>;
            updated =
              (if repetitions updated = 0 then updated\<lparr>interval := 1\<rparr>
               else if repetitions updated = 1 then updated\<lparr>interval := 6\<rparr>
               else updated\<lparr>interval :=
                      Math_round (real_of_int (interval updated) * easeFactor updated)\<rparr>);
            updated =
              (if quality = 5
               then updated\<lparr>interval := Math_round (real_of_int (interval updated) * 1.3)\<rparr>
               else updated);
            updated = updated\<lparr>repetitions := repetitions updated + 1\<rparr>
        in updated\<lparr>dueDate := addDays now (interval updated)\<rparr>)"

section \<open>The policy engine, graduated schedule (unnamed/part_001)\<close>

definition LEARNING_STEPS_MIN :: "int list" where
  "LEARNING_STEPS_MIN = [10]"

definition GRADUATED_DAYS :: "int list" where
  "GRADUATED_DAYS = [1, 3, 7, 14]"

definition LEARNING_COUNT :: nat where
  "LEARNING_COUNT = length LEARNING_STEPS_MIN"

definition GRADUATED_COUNT :: nat where
  "GRADUATED_COUNT = length GRADUATED_DAYS"


text \<open>
  Every array read below is guarded by the comparison before it, so no index is out of
  range. In the last branch \<open>rep - LEARNING_COUNT\<close> is not negative.
\<close>

definition calculateNextReview_grad :: "(int \<Rightarrow> int \<Rightarrow> int) \<Rightarrow> int \<Rightarrow> card \<Rightarrow> int \<Rightarrow> card" where
  "calculateNextReview_grad addDays now c quality =
     (let updated = c\<lparr>lastReviewed := Some now\<rparr> in
      if quality < 3 then
        updated\<lparr>repetitions := 0, interval := 0, dueDate := now + 60 * 1000\<rparr>
      else
        let newEF = easeFactor updated
                      + (0.1 - (5 - real_of_int quality) * (0.08 + (5 - real_of_int quality) * 0.02));
            updated = updated\<lparr>easeFactor := max 1.3 newEF\<rparr>;
            rep = repetitions updated
        in
        if rep < LEARNING_COUNT then
          (if quality = 5 then
             let updated = updated\<lparr>interval := GRADUATED_DAYS ! 0\<rparr>;
                 updated = updated\<lparr>repetitions := LEARNING_COUNT + 1\<rparr>
             in updated\<lparr>dueDate := addDays now (interval updated)\<rparr>
           else
             let minutes = LEARNING_STEPS_MIN ! rep;
                 updated = updated\<lparr>interval := 0\<rparr>;
                 updated = updated\<lparr>repetitions := rep + 1\<rparr>
             in updated\<lparr>dueDate := now + minutes * 60 * 1000\<rparr>)
        else
          let gradIndex = rep - LEARNING_COUNT in
          if gradIndex < GRADUATED_COUNT then
            let updated =
                  (if quality = 5 \<and> gradIndex + 1 < GRADUATED_COUNT then
                     updated\<lparr>interval := GRADUATED_DAYS ! (gradIndex + 1),
                              repetitions := rep + 2\<rparr>
                   else
                     let updated = updated\<lparr>interval := GRADUATED_DAYS ! gradIndex,
                                            repetitions := rep + 1\<rparr>
                     in if quality = 5
                        then updated\<lparr>interval :=
                               Math_round (real_of_int (interval updated) * 1.3)\<rparr>
                        else updated)
            in updated\<lparr>dueDate := addDays now (interval updated)\<rparr>
          else
            let updated = updated\<lparr>interval :=
                            Math_round (real_of_int (interval updated) * easeFactor updated)\<rparr>;
                updated =
                  (if quality = 5
                   then updated\<lparr>interval := Math_round (real_of_int (interval updated) * 1.3)\<rparr>
                   else updated);
                updated = updated\<lparr>repetitions := rep + 1\<rparr>
            in updated\<lparr>dueDate := addDays now (interval updated)\<rparr>)"

text \<open>A run of reviews of one card, each with its clock reading and its rating.\<close>

fun reviews :: "(int \<Rightarrow> card \<Rightarrow> int \<Rightarrow> card) \<Rightarrow> card \<Rightarrow> (int \<times> int) list \<Rightarrow> card" where
  "reviews engine c [] = c"
| "reviews engine c ((now, quality) # rs) = reviews engine (engine now c quality) rs"

section \<open>The engine on an object store\<close>

text \<open>
  JavaScript objects are shared by reference. Here a store is the list of all card
  objects, a reference is an index into it, \<open>spread\<close> is the object literal
  \<^verbatim>\<open>{ ...card }\<close> (a new object with the same fields) and \<open>assign\<close> is a write to fields
  of the object behind a reference. The two functions below are the two engines again,
  statement by statement, on references.
\<close>

type_synonym heap = "card list"

definition spread :: "heap \<Rightarrow> nat \<Rightarrow> nat \<times> heap" where
  "spread h r = (length h, h @ [h ! r])"

definition assign :: "heap \<Rightarrow> nat \<Rightarrow> (card \<Rightarrow> card) \<Rightarrow> heap" where
  "assign h r f = h[r := f (h ! r)]"

definition calculateNextReview_obj ::
  "(int \<Rightarrow> int \<Rightarrow> int) \<Rightarrow> int \<Rightarrow> heap \<Rightarrow> nat \<Rightarrow> int \<Rightarrow> nat \<times> heap" where
  "calculateNextReview_obj addDays now h0 c quality =
     (let (updated, h) = spread h0 c;
          h = assign h updated (\<lambda>u. u\<lparr>lastReviewed := Some now\<rparr>) in
      if quality < 3 then
        let h = assign h updated (\<lambda>u. u\<lparr>repetitions := 0\<rparr>);
            h = assign h updated (\<lambda>u. u\<lparr>interval := 0\<rparr>);
            h = assign h updated (\<lambda>u. u\<lparr>dueDate := now + 60 * 1000\<rparr>)
        in (updated, h)
      else
        let newEF = easeFactor (h ! updated)
                      + (0.1 - (5 - real_of_int quality) * (0.08 + (5 - real_of_int quality) * 0.02));
            h = assign h updated (\<lambda>u. u\<lparr>easeFactor := max 1.3 newEF\<rparr>);
            h = (if repetitions (h ! updated) = 0 then assign h updated (\<lambda>u. u\<lparr>interval := 1\<rparr>)
                 else if repetitions (h ! updated) = 1
                 then assign h updated (\<lambda>u. u\<lparr>interval := 6\<rparr>)
                 else assign h updated
                        (\<lambda>u. u\<lparr>interval := Math_round (real_of_int (interval u) * easeFactor u)\<rparr>));
            h = (if quality = 5
                 then assign h updated
                        (\<lambda>u. u\<lparr>interval := Math_round (real_of_int (interval u) * 1.3)\<rparr>)
                 else h);
            h = assign h updated (\<lambda>u. u\<lparr>repetitions := repetitions u + 1\<rparr>);
            h = assign h updated (\<lambda>u. u\<lparr>dueDate := addDays now (interval u)\<rparr>)
        in (updated, h))"

definition calculateNextReview_grad_obj ::
  "(int \<Rightarrow> int \<Rightarrow> int) \<Rightarrow> int \<Rightarrow> heap \<Rightarrow> nat \<Rightarrow> int \<Rightarrow> nat \<times> heap" where
  "calculateNextReview_grad_obj addDays now h0 c quality =
     (let (updated, h) = spread h0 c;
          h = assign h updated (\<lambda>u. u\<lparr>lastReviewed := Some now\<rparr>) in
      if quality < 3 then
        let h = assign h updated (\<lambda>u. u\<lparr>repetitions := 0\<rparr>);
            h = assign h updated (\<lambda>u. u\<lparr>interval := 0\<rparr>);
            h = assign h updated (\<lambda>u. u\<lparr>dueDate := now + 60 * 1000\<rparr>)
        in (updated, h)
      else
        let newEF = easeFactor (h ! updated)
                      + (0.1 - (5 - real_of_int quality) * (0.08 + (5 - real_of_int quality) * 0.02));
            h = assign h updated (\<lambda>u. u\<lparr>easeFactor := max 1.3 newEF\<rparr>);
            rep = repetitions (h ! updated)
        in
        if rep < LEARNING_COUNT then
          (if quality = 5 then
             let h = assign h updated (\<lambda>u. u\<lparr>interval := GRADUATED_DAYS ! 0\<rparr>);
                 h = assign h updated (\<lambda>u. u\<lparr>repetitions := LEARNING_COUNT + 1\<rparr>);
                 h = assign h updated (\<lambda>u. u\<lparr>dueDate := addDays now (interval u)\<rparr>)
             in (updated, h)
           else
             let minutes = LEARNING_STEPS_MIN ! rep;
                 h = assign h updated (\<lambda>u. u\<lparr>interval := 0\<rparr>);
                 h = assign h updated (\<lambda>u. u\<lparr>repetitions := rep + 1\<rparr>);
                 h = assign h updated (\<lambda>u. u\<lparr>dueDate := now + minutes * 60 * 1000\<rparr>)
             in (updated, h))
        else
          let gradIndex = rep - LEARNING_COUNT in
          if gradIndex < GRADUATED_COUNT then
            let h =
                  (if quality = 5 \<and> gradIndex + 1 < GRADUATED_COUNT then
                     let h = assign h updated (\<lambda>u. u\<lparr>interval := GRADUATED_DAYS ! (gradIndex + 1)\<rparr>)
                     in assign h updated (\<lambda>u. u\<lparr>repetitions := rep + 2\<rparr>)
                   else
                     let h = assign h updated (\<lambda>u. u\<lparr>interval := GRADUATED_DAYS ! gradIndex\<rparr>);
                         h = assign h updated (\<lambda>u. u\<lparr>repetitions := rep + 1\<rparr>)
                     in if quality = 5
                        then assign h updated
                               (\<lambda>u. u\<lparr>interval := Math_round (real_of_int (interval u) * 1.3)\<rparr>)
                        else h);
                h = assign h updated (\<lambda>u. u\<lparr>dueDate := addDays now (interval u)\<rparr>)
            in (updated, h)
          else
            let h = assign h updated
                      (\<lambda>u. u\<lparr>interval := Math_round (real_of_int (interval u) * easeFactor u)\<rparr>);
                h = (if quality = 5
                     then assign h updated
                            (\<lambda>u. u\<lparr>interval := Math_round (real_of_int (interval u) * 1.3)\<rparr>)
                     else h);
                h = assign h updated (\<lambda>u. u\<lparr>repetitions := rep + 1\<rparr>);
                h = assign h updated (\<lambda>u. u\<lparr>dueDate := addDays now (interval u)\<rparr>)
            in (updated, h))"

section \<open>The interval preview\<close>

text \<open>
  A number in a template literal is printed in decimal. \<open>show_tenths\<close> prints \<open>t / 10\<close>
  for a whole number of tenths \<open>t \<ge> 0\<close>, as JavaScript prints the result of
  \<^verbatim>\<open>Math.round(x * 10) / 10\<close> (below the size where it switches to exponents).
\<close>

definition digit_char :: "nat \<Rightarrow> char" where
  "digit_char n = ''0123456789'' ! n"

fun show_nat :: "nat \<Rightarrow> string" where
  "show_nat n = (if n < 10 then [digit_char n] else show_nat (n div 10) @ [digit_char (n mod 10)])"

definition show_int :: "int \<Rightarrow> string" where
  "show_int i = (if i < 0 then CHR ''-'' # show_nat (nat (- i)) else show_nat (nat i))"

definition show_tenths :: "int \<Rightarrow> string" where
  "show_tenths t =
     show_int (t div 10) @ (if t mod 10 = 0 then [] else CHR ''.'' # show_int (t mod 10))"

text \<open>
  \<^verbatim>\<open>getIntervalHint\<close> of js/sm2.js. It gets a reference to the card shown and returns the
  hint together with the store it leaves behind.
\<close>

definition getIntervalHint ::
  "(int \<Rightarrow> int \<Rightarrow> int) \<Rightarrow> int \<Rightarrow> heap \<Rightarrow> nat \<Rightarrow> int \<Rightarrow> string \<times> heap" where
  "getIntervalHint addDays now h0 c quality =
     (let (simulated, h) = calculateNextReview_obj addDays now h0 c quality in
      if quality < 3 then (''<1min'', h)
      else
        let interval = interval (h ! simulated) in
        if interval = 1 then (''1 day'', h)
        else if interval < 30 then (show_int interval @ '' days'', h)
        else if interval < 365 then
          (let months = Math_round (real_of_int interval / 30)
           in (if months = 1 then ''1 month'' else show_int months @ '' months'', h))
        else
          (let tenths = Math_round (real_of_int interval / 365 * 10)
           in (if tenths = 10 then ''1 year'' else show_tenths tenths @ '' years'', h)))"

text \<open>
  \<^verbatim>\<open>getIntervalHint\<close> of unnamed/part_001. It reads the clock a second time (\<open>now2\<close>)
  after the engine has read it (\<open>now\<close>).
\<close>

definition getIntervalHint_grad ::
  "(int \<Rightarrow> int \<Rightarrow> int) \<Rightarrow> int \<Rightarrow> int \<Rightarrow> heap \<Rightarrow> nat \<Rightarrow> int \<Rightarrow> string \<times> heap" where
  "getIntervalHint_grad addDays now now2 h0 c quality =
     (let (simulated, h) = calculateNextReview_grad_obj addDays now h0 c quality in
      if quality < 3 then (''1 min'', h)
      else if interval (h ! simulated) = 0 then
        (let due = dueDate (h ! simulated);
             minutes = Math_round (real_of_int (due - now2) / (60 * 1000))
         in if minutes < 60 then (show_int minutes @ '' min'', h)
            else (show_int (Math_round (real_of_int minutes / 60)) @ '' hr'', h))
      else
        let interval = interval (h ! simulated) in
        if interval = 1 then (''1 day'', h)
        else if interval < 30 then (show_int interval @ '' days'', h)
        else if interval < 365 then
          (let months = Math_round (real_of_int interval / 30)
           in (if months = 1 then ''1 month'' else show_int months @ '' months'', h))
        else
          (let tenths = Math_round (real_of_int interval / 365 * 10)
           in (if tenths = 10 then ''1 year'' else show_tenths tenths @ '' years'', h)))"

section \<open>The ordering function\<close>











section \<open>The session (application module)\<close>

text \<open>
  The module variables of the application that a review touches, together with the
  \<^verbatim>\<open>cards\<close> table of the database, keyed by card id. Sounds, toasts, the daily counter
  and the screen are left out.
\<close>

record action =
  la_card :: card
  la_index :: nat
  wasInQueue :: bool

record session =
  studyQueue :: "card list"
  currentCardIndex :: nat
  reviewedCount :: nat
  lastAction :: "action option"
  isPracticeMode :: bool
  db_cards :: "string \<rightharpoonup> card"

text \<open>
  What a call can end with instead of a new state. \<open>NoCurrentCard\<close>: the cursor is past
  the queue, where the source reads \<^verbatim>\<open>undefined\<close> (the handlers run only while a card is
  shown). \<open>PersistenceFailure s\<close>: the promise of \<^verbatim>\<open>CardDB.updateCard\<close> was rejected and
  the exception left the function with the module variables as in \<open>s\<close>.
  \<open>EngineException s\<close>: the engine threw, and its exception left the function with the
  module variables as in \<open>s\<close>.
\<close>

datatype error = NoCurrentCard | PersistenceFailure session | EngineException session

text \<open>
  \<^verbatim>\<open>CardDB.updateCard(id, updates)\<close> is \<^verbatim>\<open>db.cards.update\<close> of the database library:
  the record with that key takes the fields of \<open>updates\<close> (here always a whole card), a
  missing key changes nothing. Whether the database accepts the write comes from outside
  (\<open>accepted\<close>); a rejected write is \<open>None\<close>.
\<close>

definition updateCard ::
  "bool \<Rightarrow> (string \<rightharpoonup> card) \<Rightarrow> string \<Rightarrow> card \<Rightarrow> (string \<rightharpoonup> card) option" where
  "updateCard accepted tbl i updates =
     (if \<not> accepted then None
      else case tbl i of None \<Rightarrow> Some tbl | Some _ \<Rightarrow> Some (tbl(i \<mapsto> updates)))"

text \<open>\<^verbatim>\<open>xs.splice(i, 1)\<close> leaves \<open>splice_out\<close>, \<^verbatim>\<open>xs.splice(i, 0, x)\<close> leaves \<open>splice_in\<close>.\<close>

definition splice_out :: "'a list \<Rightarrow> nat \<Rightarrow> 'a list" where
  "splice_out xs i = take i xs @ drop (i + 1) xs"


subsection \<open>unnamed/part_002: both modes update the schedule\<close>

text \<open>
  \<open>engine now card quality\<close> is \<^verbatim>\<open>SM2.calculateNextReview(card, quality)\<close> of whichever
  engine is loaded, with the clock reading it makes. In this subsection and the next the
  engine is one that returns a card; a later section has the same handlers for an engine
  that may throw.
\<close>

definition handleReview ::
  "bool \<Rightarrow> (int \<Rightarrow> card \<Rightarrow> int \<Rightarrow> card) \<Rightarrow> int \<Rightarrow> int \<Rightarrow> session \<Rightarrow> error + session" where
  "handleReview accepted engine now quality s0 =
     (if length (studyQueue s0) \<le> currentCardIndex s0 then Inl NoCurrentCard
      else
        let c = studyQueue s0 ! currentCardIndex s0;
            s = s0\<lparr>lastAction :=
                     Some \<lparr>la_card = c, la_index = currentCardIndex s0, wasInQueue = True\<rparr>\<rparr>;
            updated = engine now c quality
        in case updateCard accepted (db_cards s) (card_id c) updated of
             None \<Rightarrow> Inl (PersistenceFailure s)
           | Some tbl \<Rightarrow>
               let s = s\<lparr>db_cards := tbl\<rparr> in
               if quality = 0 then
                 let q = (studyQueue s)[currentCardIndex s := updated];
                     failedCard = q ! currentCardIndex s;
                     q = splice_out q (currentCardIndex s)
                 in Inr (s\<lparr>studyQueue := q @ [failedCard]\<rparr>)
               else
                 Inr (s\<lparr>reviewedCount := reviewedCount s + 1,
                        currentCardIndex := currentCardIndex s + 1\<rparr>))"


subsection \<open>unnamed/part_003: practice mode leaves the schedule alone\<close>

text \<open>
  In practice mode this variant never looks into the card. With the cursor past the
  queue a rating other than 0 then only moves the two counters on; the rating 0 would
  put \<^verbatim>\<open>undefined\<close> into the queue, which a list of cards cannot hold, and is
  \<open>NoCurrentCard\<close> like the failing read of \<^verbatim>\<open>card.id\<close> in study mode.
\<close>

definition handleReview_p3 ::
  "bool \<Rightarrow> (int \<Rightarrow> card \<Rightarrow> int \<Rightarrow> card) \<Rightarrow> int \<Rightarrow> int \<Rightarrow> session \<Rightarrow> error + session" where
  "handleReview_p3 accepted engine now quality s0 =
     (if length (studyQueue s0) \<le> currentCardIndex s0 then
        (if isPracticeMode s0 \<and> quality \<noteq> 0
         then Inr (s0\<lparr>reviewedCount := reviewedCount s0 + 1,
                      currentCardIndex := currentCardIndex s0 + 1\<rparr>)
         else Inl NoCurrentCard)
      else
        let c = studyQueue s0 ! currentCardIndex s0;
            s = (if \<not> isPracticeMode s0
                 then s0\<lparr>lastAction :=
                          Some \<lparr>la_card = c, la_index = currentCardIndex s0, wasInQueue = True\<rparr>\<rparr>
                 else s0)
        in
        if isPracticeMode s then
          (if quality = 0 then
             let failedCard = studyQueue s ! currentCardIndex s;
                 q = splice_out (studyQueue s) (currentCardIndex s)
             in Inr (s\<lparr>studyQueue := q @ [failedCard]\<rparr>)
           else
             Inr (s\<lparr>reviewedCount := reviewedCount s + 1,
                    currentCardIndex := currentCardIndex s + 1\<rparr>))
        else
          let updated = engine now c quality in
          case updateCard accepted (db_cards s) (card_id c) updated of
            None \<Rightarrow> Inl (PersistenceFailure s)
          | Some tbl \<Rightarrow>
              let s = s\<lparr>db_cards := tbl\<rparr> in
              if quality = 0 then
                let q = (studyQueue s)[currentCardIndex s := updated];
                    failedCard = q ! currentCardIndex s;
                    q = splice_out q (currentCardIndex s)
                in Inr (s\<lparr>studyQueue := q @ [failedCard]\<rparr>)
              else
                Inr (s\<lparr>reviewedCount := reviewedCount s + 1,
                       currentCardIndex := currentCardIndex s + 1\<rparr>))"


section \<open>The engine and the session when the engine throws\<close>

text \<open>
  A \<^verbatim>\<open>Date\<close> holds at most 8.64e15 milliseconds either side of the epoch; beyond that
  it is invalid and \<^verbatim>\<open>toISOString\<close> throws a RangeError. Both engines call
  \<^verbatim>\<open>toISOString\<close> on the clock reading and on the due date they have computed, so
  \<^verbatim>\<open>SM2.calculateNextReview\<close>, as the application calls it, returns the card computed
  above or throws (\<open>None\<close>).
\<close>

definition Date_valid :: "int \<Rightarrow> bool" where
  "Date_valid t = (- 8640000000000000 \<le> t \<and> t \<le> 8640000000000000)"


definition SM2_calculateNextReview_grad ::
  "(int \<Rightarrow> int \<Rightarrow> int) \<Rightarrow> int \<Rightarrow> card \<Rightarrow> int \<Rightarrow> card option" where
  "SM2_calculateNextReview_grad addDays now c quality =
     (let updated = calculateNextReview_grad addDays now c quality in
      if Date_valid now \<and> Date_valid (dueDate updated) then Some updated else None)"

text \<open>
  \<^verbatim>\<open>handleReview\<close> of unnamed/part_002 and of unnamed/part_003 once more, for an engine
  that returns a card or throws. The call of the engine stands between the write to the
  undo slot and the call of \<^verbatim>\<open>CardDB.updateCard\<close>, and nothing catches its exception.
\<close>

definition handleReview_exn ::
  "bool \<Rightarrow> (int \<Rightarrow> card \<Rightarrow> int \<Rightarrow> card option) \<Rightarrow> int \<Rightarrow> int \<Rightarrow> session \<Rightarrow> error + session" where
  "handleReview_exn accepted engine now quality s0 =
     (if length (studyQueue s0) \<le> currentCardIndex s0 then Inl NoCurrentCard
      else
        let c = studyQueue s0 ! currentCardIndex s0;
            s = s0\<lparr>lastAction :=
                     Some \<lparr>la_card = c, la_index = currentCardIndex s0, wasInQueue = True\<rparr>\<rparr>
        in case engine now c quality of
             None \<Rightarrow> Inl (EngineException s)
           | Some updated \<Rightarrow>
               (case updateCard accepted (db_cards s) (card_id c) updated of
                  None \<Rightarrow> Inl (PersistenceFailure s)
                | Some tbl \<Rightarrow>
                    let s = s\<lparr>db_cards := tbl\<rparr> in
                    if quality = 0 then
                      let q = (studyQueue s)[currentCardIndex s := updated];
                          failedCard = q ! currentCardIndex s;
                          q = splice_out q (currentCardIndex s)
                      in Inr (s\<lparr>studyQueue := q @ [failedCard]\<rparr>)
                    else
                      Inr (s\<lparr>reviewedCount := reviewedCount s + 1,
                             currentCardIndex := currentCardIndex s + 1\<rparr>)))"

definition handleReview_p3_exn ::
  "bool \<Rightarrow> (int \<Rightarrow> card \<Rightarrow> int \<Rightarrow> card option) \<Rightarrow> int \<Rightarrow> int \<Rightarrow> session \<Rightarrow> error + session" where
  "handleReview_p3_exn accepted engine now quality s0 =
     (if length (studyQueue s0) \<le> currentCardIndex s0 then
        (if isPracticeMode s0 \<and> quality \<noteq> 0
         then Inr (s0\<lparr>reviewedCount := reviewedCount s0 + 1,
                      currentCardIndex := currentCardIndex s0 + 1\<rparr>)
         else Inl NoCurrentCard)
      else
        let c = studyQueue s0 ! currentCardIndex s0;
            s = (if \<not> isPracticeMode s0
                 then s0\<lparr>lastAction :=
                          Some \<lparr>la_card = c, la_index = currentCardIndex s0, wasInQueue = True\<rparr>\<rparr>
                 else s0)
        in
        if isPracticeMode s then
          (if quality = 0 then
             let failedCard = studyQueue s ! currentCardIndex s;
                 q = splice_out (studyQueue s) (currentCardIndex s)
             in Inr (s\<lparr>studyQueue := q @ [failedCard]\<rparr>)
           else
             Inr (s\<lparr>reviewedCount := reviewedCount s + 1,
                    currentCardIndex := currentCardIndex s + 1\<rparr>))
        else
          case engine now c quality of
            None \<Rightarrow> Inl (EngineException s)
          | Some updated \<Rightarrow>
              (case updateCard accepted (db_cards s) (card_id c) updated of
                 None \<Rightarrow> Inl (PersistenceFailure s)
               | Some tbl \<Rightarrow>
                   let s = s\<lparr>db_cards := tbl\<rparr> in
                   if quality = 0 then
                     let q = (studyQueue s)[currentCardIndex s := updated];
                         failedCard = q ! currentCardIndex s;
                         q = splice_out q (currentCardIndex s)
                     in Inr (s\<lparr>studyQueue := q @ [failedCard]\<rparr>)
                   else
                     Inr (s\<lparr>reviewedCount := reviewedCount s + 1,
                            currentCardIndex := currentCardIndex s + 1\<rparr>)))"

section \<open>Example data\<close>

text \<open>Three new cards, a mature card and a session over the three new cards.\<close>

definition cardA :: card where
  "cardA = createCard ''a'' 0 ''kot'' ''cat''"

definition cardB :: card where
  "cardB = createCard ''b'' 0 ''pies'' ''dog''"

definition cardC :: card where
  "cardC = createCard ''c'' 0 ''ryba'' ''fish''"

definition cardM :: card where
  "cardM = (createCard ''m'' 0 ''dom'' ''house'')
             \<lparr>repetitions := 6, interval := 30, dueDate := - 5000\<rparr>"

definition session3 :: session where
  "session3 =
     \<lparr>studyQueue = [cardA, cardB, cardC], currentCardIndex = 0, reviewedCount = 0,
      lastAction = None, isPracticeMode = False,
      db_cards = [''a'' \<mapsto> cardA, ''b'' \<mapsto> cardB, ''c'' \<mapsto> cardC]\<rparr>"

section \<open>Properties of the policy engine\<close>


lemma good_step_flat:
  "calculateNextReview d now c 3 =
     c\<lparr>lastReviewed := Some now,
       easeFactor := max 1.3 (easeFactor c - 0.14),
       interval := (if repetitions c = 0 then 1 else if repetitions c = 1 then 6
                    else Math_round (real_of_int (interval c) * max 1.3 (easeFactor c - 0.14))),
       repetitions := repetitions c + 1,
       dueDate := d now (if repetitions c = 0 then 1 else if repetitions c = 1 then 6
                    else Math_round (real_of_int (interval c) * max 1.3 (easeFactor c - 0.14)))\<rparr>"
  by (simp add: calculateNextReview_def Let_def)

text \<open>
  The interval of the third rating does not hang on the last digits of the ease: any
  ease between 2.219 and 2.221 before that rating gives 12 days. The program computes
  the ease in doubles, which miss the decimal values written here by far less than
  \<open>0.001\<close>.
\<close>

lemma third_interval_stable:
  assumes "2.219 \<le> e" "e \<le> 2.221"
  shows "Math_round (6 * max 1.3 (e - 0.14)) = 12"
proof -
  have m: "max 1.3 (e - 0.14) = e - 0.14" using assms(1) by (simp add: max_def)
  have "12 \<le> 6 * (e - 0.14) + 1 / 2" "6 * (e - 0.14) + 1 / 2 < 13"
    using assms by simp_all
  then show ?thesis unfolding m Math_round_def by (simp add: floor_eq_iff)
qed

text \<open>
  C1, as the code has it. Under the flat schedule a card with \<open>repetitions = 0\<close>,
  \<open>interval = 0\<close> and \<open>easeFactor = 2.5\<close> rated Good (3) three times has, after the
  first rating, \<open>repetitions = 1\<close>, \<open>interval = 1\<close> and an ease of 2.36; after the second,
  \<open>repetitions = 2\<close>, \<open>interval = 6\<close> and an ease of 2.22; after the third,
  \<open>repetitions = 3\<close>, an ease of 2.08 and \<open>interval = round (6 \<times> 2.08) = 12\<close>; each ease
  is meant to within one part in \<open>10 ^ 9\<close>. For \<open>q = 3\<close> the ease formula adds
  \<open>0.1 - 2 \<times> (0.08 + 2 \<times> 0.02)\<close>, about \<open>- 0.14\<close>, and the third interval is computed
  with the ease that the third rating has already lowered. The third step is the same
  for every card with \<open>repetitions = 2\<close>, \<open>interval = 6\<close> and an ease within \<open>0.001\<close> of
  2.22: 12 days, three repetitions, an ease within \<open>0.001\<close> of 2.08.
\<close>

theorem three_good_flat:
  "repetitions (calculateNextReview d n1 (c\<lparr>repetitions := 0, interval := 0, easeFactor := 2.5\<rparr>) 3) = 1
   \<and> interval (calculateNextReview d n1 (c\<lparr>repetitions := 0, interval := 0, easeFactor := 2.5\<rparr>) 3) = 1
   \<and> \<bar>easeFactor (calculateNextReview d n1 (c\<lparr>repetitions := 0, interval := 0, easeFactor := 2.5\<rparr>) 3)
        - 2.36\<bar> \<le> 1 / 10 ^ 9
   \<and> repetitions (calculateNextReview d n2
         (calculateNextReview d n1 (c\<lparr>repetitions := 0, interval := 0, easeFactor := 2.5\<rparr>) 3) 3) = 2
   \<and> interval (calculateNextReview d n2
         (calculateNextReview d n1 (c\<lparr>repetitions := 0, interval := 0, easeFactor := 2.5\<rparr>) 3) 3) = 6
   \<and> \<bar>easeFactor (calculateNextReview d n2
         (calculateNextReview d n1 (c\<lparr>repetitions := 0, interval := 0, easeFactor := 2.5\<rparr>) 3) 3)
        - 2.22\<bar> \<le> 1 / 10 ^ 9
   \<and> repetitions (calculateNextReview d n3 (calculateNextReview d n2
         (calculateNextReview d n1 (c\<lparr>repetitions := 0, interval := 0, easeFactor := 2.5\<rparr>) 3) 3) 3) = 3
   \<and> interval (calculateNextReview d n3 (calculateNextReview d n2
         (calculateNextReview d n1 (c\<lparr>repetitions := 0, interval := 0, easeFactor := 2.5\<rparr>) 3) 3) 3) = 12
   \<and> \<bar>easeFactor (calculateNextReview d n3 (calculateNextReview d n2
         (calculateNextReview d n1 (c\<lparr>repetitions := 0, interval := 0, easeFactor := 2.5\<rparr>) 3) 3) 3)
        - 2.08\<bar> \<le> 1 / 10 ^ 9
   \<and> (repetitions c2 = 2 \<and> interval c2 = 6 \<and> \<bar>easeFactor c2 - 2.22\<bar> \<le> 1 / 1000 \<longrightarrow>
          repetitions (calculateNextReview d n3 c2 3) = 3
        \<and> interval (calculateNextReview d n3 c2 3) = 12
        \<and> \<bar>easeFactor (calculateNextReview d n3 c2 3) - 2.08\<bar> \<le> 1 / 1000)"
proof -
  have nested: "repetitions (calculateNextReview d n1 (c\<lparr>repetitions := 0, interval := 0, easeFactor := 2.5\<rparr>) 3) = 1
   \<and> interval (calculateNextReview d n1 (c\<lparr>repetitions := 0, interval := 0, easeFactor := 2.5\<rparr>) 3) = 1
   \<and> \<bar>easeFactor (calculateNextReview d n1 (c\<lparr>repetitions := 0, interval := 0, easeFactor := 2.5\<rparr>) 3)
        - 2.36\<bar> \<le> 1 / 10 ^ 9
   \<and> repetitions (calculateNextReview d n2
         (calculateNextReview d n1 (c\<lparr>repetitions := 0, interval := 0, easeFactor := 2.5\<rparr>) 3) 3) = 2
   \<and> interval (calculateNextReview d n2
         (calculateNextReview d n1 (c\<lparr>repetitions := 0, interval := 0, easeFactor := 2.5\<rparr>) 3) 3) = 6
   \<and> \<bar>easeFactor (calculateNextReview d n2
         (calculateNextReview d n1 (c\<lparr>repetitions := 0, interval := 0, easeFactor := 2.5\<rparr>) 3) 3)
        - 2.22\<bar> \<le> 1 / 10 ^ 9
   \<and> repetitions (calculateNextReview d n3 (calculateNextReview d n2
         (calculateNextReview d n1 (c\<lparr>repetitions := 0, interval := 0, easeFactor := 2.5\<rparr>) 3) 3) 3) = 3
   \<and> interval (calculateNextReview d n3 (calculateNextReview d n2
         (calculateNextReview d n1 (c\<lparr>repetitions := 0, interval := 0, easeFactor := 2.5\<rparr>) 3) 3) 3) = 12
   \<and> \<bar>easeFactor (calculateNextReview d n3 (calculateNextReview d n2
         (calculateNextReview d n1 (c\<lparr>repetitions := 0, interval := 0, easeFactor := 2.5\<rparr>) 3) 3) 3)
        - 2.08\<bar> \<le> 1 / 10 ^ 9"
    unfolding good_step_flat by (simp add: Math_round_def)
  have stable: "repetitions (calculateNextReview d n3 c2 3) = 3
        \<and> interval (calculateNextReview d n3 c2 3) = 12
        \<and> \<bar>easeFactor (calculateNextReview d n3 c2 3) - 2.08\<bar> \<le> 1 / 1000"
    if h: "repetitions c2 = 2 \<and> interval c2 = 6 \<and> \<bar>easeFactor c2 - 2.22\<bar> \<le> 1 / 1000"
  proof -
    from h have a: "\<bar>easeFactor c2 - 2.22\<bar> \<le> 1 / 1000" by blast
    have b: "2.219 \<le> easeFactor c2" "easeFactor c2 \<le> 2.221"
      using a unfolding abs_le_iff by simp_all
    have m: "max 1.3 (easeFactor c2 - 0.14) = easeFactor c2 - 0.14"
      using b(1) by (simp add: max_def)
    have i: "Math_round (6 * max 1.3 (easeFactor c2 - 0.14)) = 12"
      using b by (rule third_interval_stable)
    have e: "\<bar>easeFactor c2 - 0.14 - 2.08\<bar> \<le> 1 / 1000"
      using b unfolding abs_le_iff by simp
    have r: "repetitions (calculateNextReview d n3 c2 3) = 3"
      using h by (simp add: good_step_flat)
    have v: "interval (calculateNextReview d n3 c2 3) = 12"
      using h i by (simp add: good_step_flat)
    have "easeFactor (calculateNextReview d n3 c2 3) = max 1.3 (easeFactor c2 - 0.14)"
      by (simp add: good_step_flat)
    then have f: "easeFactor (calculateNextReview d n3 c2 3) = easeFactor c2 - 0.14"
      using m by (rule trans)
    from r v e show ?thesis unfolding f by (intro conjI)
  qed
  from nested stable show ?thesis by blast
qed

theorem three_good_flat_witness:
  "repetitions (cardA\<lparr>repetitions := 2, interval := 6, easeFactor := 22199999999999998 / 10 ^ 16\<rparr>) = 2
   \<and> interval (cardA\<lparr>repetitions := 2, interval := 6, easeFactor := 22199999999999998 / 10 ^ 16\<rparr>) = 6
   \<and> \<bar>easeFactor (cardA\<lparr>repetitions := 2, interval := 6, easeFactor := 22199999999999998 / 10 ^ 16\<rparr>)
        - 2.22\<bar> \<le> 1 / 1000
   \<and> repetitions (calculateNextReview utcDays 0
         (cardA\<lparr>repetitions := 2, interval := 6, easeFactor := 22199999999999998 / 10 ^ 16\<rparr>) 3) = 3
   \<and> interval (calculateNextReview utcDays 0
         (cardA\<lparr>repetitions := 2, interval := 6, easeFactor := 22199999999999998 / 10 ^ 16\<rparr>) 3) = 12"
  using three_good_flat [where ?c2.0 = "cardA\<lparr>repetitions := 2, interval := 6,
      easeFactor := 22199999999999998 / 10 ^ 16\<rparr>" and d = utcDays and ?n3.0 = 0]
  by simp

text \<open>
  The figures of C1 as it was stated (a third interval of 16 days, an ease of about 2.6
  after two Good ratings, an increment of about \<open>+ 0.02\<close>) are not the code's: on a
  newly created card the third interval is 12, the ease after two ratings is below 2.23
  and one Good rating leaves the ease below the 2.5 it started from.
\<close>

theorem three_good_flat_counterexample:
  "interval (reviews (calculateNextReview utcDays) (createCard ''a'' 0 ''kot'' ''cat'')
               [(0, 3), (0, 3), (0, 3)]) = 12
   \<and> interval (reviews (calculateNextReview utcDays) (createCard ''a'' 0 ''kot'' ''cat'')
               [(0, 3), (0, 3), (0, 3)]) \<noteq> 16
   \<and> easeFactor (reviews (calculateNextReview utcDays) (createCard ''a'' 0 ''kot'' ''cat'')
               [(0, 3), (0, 3)]) < 2.23
   \<and> easeFactor (calculateNextReview utcDays 0 (createCard ''a'' 0 ''kot'' ''cat'') 3) < 2.5"
  by (simp add: good_step_flat createCard_def Math_round_def)

lemma fail_flat:
  "quality < 3 \<Longrightarrow> calculateNextReview d now c quality =
     c\<lparr>lastReviewed := Some now, repetitions := 0, interval := 0, dueDate := now + 60000\<rparr>"
  by (simp add: calculateNextReview_def)

lemma fail_grad:
  "quality < 3 \<Longrightarrow> calculateNextReview_grad d now c quality =
     c\<lparr>lastReviewed := Some now, repetitions := 0, interval := 0, dueDate := now + 60000\<rparr>"
  by (simp add: calculateNextReview_grad_def)

text \<open>
  C4. For every card, clock reading and calendar, a rating below Good (\<open>quality < 3\<close>)
  returns, from both engines, the input card with \<open>lastReviewed = now\<close>,
  \<open>repetitions = 0\<close>, \<open>interval = 0\<close> and \<open>dueDate = now + 60000\<close> milliseconds and
  nothing else changed; in particular the ease factor is the input's.
\<close>

theorem fail_resets:
  assumes "quality < 3"
  shows "calculateNextReview d now c quality =
           c\<lparr>lastReviewed := Some now, repetitions := 0, interval := 0, dueDate := now + 60000\<rparr>
       \<and> calculateNextReview_grad d now c quality =
           c\<lparr>lastReviewed := Some now, repetitions := 0, interval := 0, dueDate := now + 60000\<rparr>
       \<and> repetitions (calculateNextReview d now c quality) = 0
       \<and> interval (calculateNextReview d now c quality) = 0
       \<and> dueDate (calculateNextReview d now c quality) = now + 60 * 1000
       \<and> easeFactor (calculateNextReview d now c quality) = easeFactor c
       \<and> repetitions (calculateNextReview_grad d now c quality) = 0
       \<and> interval (calculateNextReview_grad d now c quality) = 0
       \<and> dueDate (calculateNextReview_grad d now c quality) = now + 60 * 1000
       \<and> easeFactor (calculateNextReview_grad d now c quality) = easeFactor c"
  using assms by (simp add: fail_flat fail_grad)

theorem fail_resets_witness:
  "(0::int) < 3
   \<and> calculateNextReview utcDays 1000 cardM 0 =
       cardM\<lparr>lastReviewed := Some 1000, repetitions := 0, interval := 0, dueDate := 61000\<rparr>
   \<and> calculateNextReview_grad utcDays 1000 cardM 0 =
       cardM\<lparr>lastReviewed := Some 1000, repetitions := 0, interval := 0, dueDate := 61000\<rparr>
   \<and> easeFactor (calculateNextReview utcDays 1000 cardM 0) = 2.5"
  using fail_resets [of 0 utcDays 1000 cardM] by (simp add: cardM_def createCard_def)

lemma ease_flat:
  "easeFactor (calculateNextReview d now c q) =
     (if q < 3 then easeFactor c
      else max 1.3 (easeFactor c + (0.1 - (5 - real_of_int q) * (0.08 + (5 - real_of_int q) * 0.02))))"
  by (simp add: calculateNextReview_def Let_def)

lemma ease_grad:
  "easeFactor (calculateNextReview_grad d now c q) =
     (if q < 3 then easeFactor c
      else max 1.3 (easeFactor c + (0.1 - (5 - real_of_int q) * (0.08 + (5 - real_of_int q) * 0.02))))"
  by (simp add: calculateNextReview_grad_def Let_def)

lemma ease_floor_flat:
  assumes "1.3 \<le> easeFactor c \<or> 3 \<le> q"
  shows "1.3 \<le> easeFactor (calculateNextReview d now c q)"
proof (cases "q < 3")
  case True
  then have e: "easeFactor (calculateNextReview d now c q) = easeFactor c"
    by (simp add: ease_flat)
  from True assms have "1.3 \<le> easeFactor c" by auto
  then show ?thesis unfolding e .
next
  case False
  show ?thesis unfolding ease_flat if_not_P [OF False] by (rule max.cobounded1)
qed

lemma ease_floor_grad:
  assumes "1.3 \<le> easeFactor c \<or> 3 \<le> q"
  shows "1.3 \<le> easeFactor (calculateNextReview_grad d now c q)"
proof (cases "q < 3")
  case True
  then have e: "easeFactor (calculateNextReview_grad d now c q) = easeFactor c"
    by (simp add: ease_grad)
  from True assms have "1.3 \<le> easeFactor c" by auto
  then show ?thesis unfolding e .
next
  case False
  show ?thesis unfolding ease_grad if_not_P [OF False] by (rule max.cobounded1)
qed

lemma ease_floor_reviews:
  assumes step: "\<And>now c q. 1.3 \<le> easeFactor c \<Longrightarrow> 1.3 \<le> easeFactor (engine now c q)"
  shows "1.3 \<le> easeFactor c \<Longrightarrow> 1.3 \<le> easeFactor (reviews engine c rs)"
proof (induction rs arbitrary: c)
  case Nil
  then show ?case unfolding reviews.simps .
next
  case (Cons r rs)
  obtain now q where r: "r = (now, q)" by (cases r)
  have "1.3 \<le> easeFactor (engine now c q)" using Cons.prems by (rule step)
  then have "1.3 \<le> easeFactor (reviews engine (engine now c q) rs)" by (rule Cons.IH)
  then show ?case unfolding r reviews.simps .
qed

text \<open>
  C5. A card whose ease factor is at least 1.3 keeps an ease factor of at least 1.3
  through one review of any quality and through any run of reviews, under both engines;
  after a review of quality Good or better the ease factor is at least 1.3 whatever it
  was before.
\<close>

theorem easeFactor_floor:
  "(1.3 \<le> easeFactor c \<longrightarrow>
      1.3 \<le> easeFactor (calculateNextReview d now c q)
    \<and> 1.3 \<le> easeFactor (calculateNextReview_grad d now c q)
    \<and> 1.3 \<le> easeFactor (reviews (calculateNextReview d) c rs)
    \<and> 1.3 \<le> easeFactor (reviews (calculateNextReview_grad d) c rs))
   \<and> (3 \<le> q \<longrightarrow>
      1.3 \<le> easeFactor (calculateNextReview d now c q)
    \<and> 1.3 \<le> easeFactor (calculateNextReview_grad d now c q))"
proof (intro conjI impI)
  assume c: "1.3 \<le> easeFactor c"
  show "1.3 \<le> easeFactor (calculateNextReview d now c q)"
    by (rule ease_floor_flat) (rule disjI1 [OF c])
  show "1.3 \<le> easeFactor (calculateNextReview_grad d now c q)"
    by (rule ease_floor_grad) (rule disjI1 [OF c])
  show "1.3 \<le> easeFactor (reviews (calculateNextReview d) c rs)"
    using c by (rule ease_floor_reviews [rotated]) (rule ease_floor_flat, erule disjI1)
  show "1.3 \<le> easeFactor (reviews (calculateNextReview_grad d) c rs)"
    using c by (rule ease_floor_reviews [rotated]) (rule ease_floor_grad, erule disjI1)
next
  assume q: "3 \<le> q"
  show "1.3 \<le> easeFactor (calculateNextReview d now c q)"
    by (rule ease_floor_flat) (rule disjI2 [OF q])
  show "1.3 \<le> easeFactor (calculateNextReview_grad d now c q)"
    by (rule ease_floor_grad) (rule disjI2 [OF q])
qed

theorem easeFactor_floor_witness:
  "(1.3::real) \<le> easeFactor (cardA\<lparr>easeFactor := 1.3\<rparr>) \<and> (3::int) \<le> 3
   \<and> easeFactor (calculateNextReview utcDays 0 (cardA\<lparr>easeFactor := 1.3\<rparr>) 3) = 1.3
   \<and> easeFactor (reviews (calculateNextReview utcDays) (cardA\<lparr>easeFactor := 1.3\<rparr>)
        [(0, 3), (10, 3), (20, 3)]) = 1.3
   \<and> 1.3 \<le> easeFactor (reviews (calculateNextReview_grad utcDays) (cardA\<lparr>easeFactor := 1.3\<rparr>)
        [(0, 3), (10, 3), (20, 3)])"
  using easeFactor_floor [of "cardA\<lparr>easeFactor := 1.3\<rparr>" utcDays 0 3 "[(0, 3), (10, 3), (20, 3)]"]
  by (simp add: ease_flat good_step_flat cardA_def createCard_def)

text \<open>
  C10. Under the flat schedule, for every card with \<open>repetitions = 0\<close>, the result of
  Easy (5) is the result of Good (3) with another ease factor: both have \<open>interval = 1\<close>
  (the bonus \<open>round (1 \<times> 1.3)\<close> is 1 again) and \<open>repetitions = 1\<close>; the ease factors
  differ whenever the card's ease is at least 1.3.
\<close>

theorem easy_equals_good_on_new:
  assumes "repetitions c = 0"
  shows "calculateNextReview d now c 5 =
           (calculateNextReview d now c 3)\<lparr>easeFactor := max 1.3 (easeFactor c + 0.1)\<rparr>
       \<and> Math_round (1 * 1.3) = 1
       \<and> interval (calculateNextReview d now c 5) = 1
       \<and> interval (calculateNextReview d now c 3) = 1
       \<and> repetitions (calculateNextReview d now c 5) = 1
       \<and> repetitions (calculateNextReview d now c 3) = 1
       \<and> (1.3 \<le> easeFactor c \<longrightarrow>
            easeFactor (calculateNextReview d now c 3) < easeFactor (calculateNextReview d now c 5))"
  using assms by (simp add: calculateNextReview_def Let_def Math_round_def)

theorem easy_equals_good_on_new_witness:
  "repetitions cardA = 0 \<and> 1.3 \<le> easeFactor cardA
   \<and> interval (calculateNextReview utcDays 0 cardA 5) = 1
   \<and> repetitions (calculateNextReview utcDays 0 cardA 5) = 1
   \<and> easeFactor (calculateNextReview utcDays 0 cardA 5) = 2.6
   \<and> easeFactor (calculateNextReview utcDays 0 cardA 3) = 2.36
   \<and> calculateNextReview utcDays 0 cardA 5 = (calculateNextReview utcDays 0 cardA 3)\<lparr>easeFactor := 2.6\<rparr>"
  using easy_equals_good_on_new [of cardA utcDays 0]
  by (simp add: cardA_def createCard_def ease_flat)

section \<open>Properties of the ordering function\<close>


















section \<open>Properties of the interval preview\<close>

text \<open>On the object store each engine leaves every object as it was and adds its result.\<close>

lemma calculateNextReview_obj_refines:
  "calculateNextReview_obj d now h c q = (length h, h @ [calculateNextReview d now (h ! c) q])"
  by (simp add: calculateNextReview_obj_def calculateNextReview_def spread_def assign_def Let_def)

lemma calculateNextReview_grad_obj_refines:
  "calculateNextReview_grad_obj d now h c q = (length h, h @ [calculateNextReview_grad d now (h ! c) q])"
  by (simp add: calculateNextReview_grad_obj_def calculateNextReview_grad_def spread_def assign_def Let_def)

lemma snd_getIntervalHint: "snd (getIntervalHint d now h c q) = h @ [calculateNextReview d now (h ! c) q]"
  by (simp add: getIntervalHint_def calculateNextReview_obj_refines Let_def)

lemma fst_getIntervalHint_cong:
  "h ! c = h' ! c \<Longrightarrow> fst (getIntervalHint d now h c q) = fst (getIntervalHint d now h' c q)"
  by (simp add: getIntervalHint_def calculateNextReview_obj_refines Let_def)

lemma snd_getIntervalHint_grad: "snd (getIntervalHint_grad d now now2 h c q) = h @ [calculateNextReview_grad d now (h ! c) q]"
  by (simp add: getIntervalHint_grad_def calculateNextReview_grad_obj_refines Let_def)

lemma fst_getIntervalHint_grad_cong:
  "h ! c = h' ! c \<Longrightarrow> fst (getIntervalHint_grad d now now2 h c q) = fst (getIntervalHint_grad d now now2 h' c q)"
  by (simp add: getIntervalHint_grad_def calculateNextReview_grad_obj_refines Let_def)


text \<open>
  C8. A preview of a card in the store changes no object that was there, the card
  itself least of all (so its \<open>repetitions\<close> stay), and only adds the simulated copy. A
  second preview of the same card with the same rating and clock readings, made in the
  store the first one left, returns the same text. Both variants.
\<close>

theorem getIntervalHint_pure:
  assumes "c < length h"
  shows "fst (getIntervalHint d now (snd (getIntervalHint d now h c q)) c q)
           = fst (getIntervalHint d now h c q)
       \<and> (\<forall>r<length h. snd (getIntervalHint d now h c q) ! r = h ! r)
       \<and> repetitions (snd (getIntervalHint d now h c q) ! c) = repetitions (h ! c)
       \<and> fst (getIntervalHint_grad d now now2 (snd (getIntervalHint_grad d now now2 h c q)) c q)
           = fst (getIntervalHint_grad d now now2 h c q)
       \<and> (\<forall>r<length h. snd (getIntervalHint_grad d now now2 h c q) ! r = h ! r)
       \<and> repetitions (snd (getIntervalHint_grad d now now2 h c q) ! c) = repetitions (h ! c)"
proof -
  have a: "\<forall>r<length h. snd (getIntervalHint d now h c q) ! r = h ! r"
    by (simp add: snd_getIntervalHint nth_append)
  have b: "\<forall>r<length h. snd (getIntervalHint_grad d now now2 h c q) ! r = h ! r"
    by (simp add: snd_getIntervalHint_grad nth_append)
  have a': "snd (getIntervalHint d now h c q) ! c = h ! c"
    using a assms by blast
  have b': "snd (getIntervalHint_grad d now now2 h c q) ! c = h ! c"
    using b assms by blast
  have "fst (getIntervalHint d now (snd (getIntervalHint d now h c q)) c q)
           = fst (getIntervalHint d now h c q)"
    using a' by (rule fst_getIntervalHint_cong)
  moreover have "fst (getIntervalHint_grad d now now2 (snd (getIntervalHint_grad d now now2 h c q)) c q)
           = fst (getIntervalHint_grad d now now2 h c q)"
    using b' by (rule fst_getIntervalHint_grad_cong)
  ultimately show ?thesis using a b a' b' by simp
qed

theorem getIntervalHint_pure_witness:
  "(0::nat) < length [cardA]
   \<and> fst (getIntervalHint utcDays 1000 [cardA] 0 3) = ''1 day''
   \<and> fst (getIntervalHint utcDays 1000 (snd (getIntervalHint utcDays 1000 [cardA] 0 3)) 0 3) = ''1 day''
   \<and> snd (getIntervalHint utcDays 1000 [cardA] 0 3) ! 0 = cardA
   \<and> fst (getIntervalHint_grad utcDays 1000 1000 [cardA] 0 3) = ''10 min''
   \<and> fst (getIntervalHint_grad utcDays 1000 1000
            (snd (getIntervalHint_grad utcDays 1000 1000 [cardA] 0 3)) 0 3) = ''10 min''
   \<and> snd (getIntervalHint_grad utcDays 1000 1000 [cardA] 0 3) ! 0 = cardA"
  using getIntervalHint_pure [of 0 "[cardA]" utcDays 1000 3 1000]
  by (simp add: getIntervalHint_def getIntervalHint_grad_def
      calculateNextReview_obj_refines calculateNextReview_grad_obj_refines
      calculateNextReview_def calculateNextReview_grad_def cardA_def createCard_def
      LEARNING_COUNT_def LEARNING_STEPS_MIN_def Math_round_def show_int_def digit_char_def)

section \<open>Properties of the session\<close>



lemma handleReview_fail:
  assumes "currentCardIndex s < length (studyQueue s)"
  shows "handleReview True engine now 0 s =
     Inr (s\<lparr>lastAction := Some \<lparr>la_card = studyQueue s ! currentCardIndex s, la_index = currentCardIndex s, wasInQueue = True\<rparr>,
           db_cards := (case db_cards s (card_id (studyQueue s ! currentCardIndex s)) of None \<Rightarrow> db_cards s
                        | Some _ \<Rightarrow> (db_cards s)(card_id (studyQueue s ! currentCardIndex s) \<mapsto> engine now (studyQueue s ! currentCardIndex s) 0)),
           studyQueue := take (currentCardIndex s) (studyQueue s) @ drop (Suc (currentCardIndex s)) (studyQueue s)
                         @ [engine now (studyQueue s ! currentCardIndex s) 0]\<rparr>)"
  using assms by (simp add: handleReview_def updateCard_def splice_out_def Let_def split: option.splits)



lemma handleReview_p3_study:
  "\<not> isPracticeMode s \<Longrightarrow> handleReview_p3 accepted engine now quality s = handleReview accepted engine now quality s"
  by (simp add: handleReview_p3_def handleReview_def Let_def)




text \<open>
  C6. With a current card and the write accepted, a review rated Fail (0) leaves the
  queue as long as it was: the cards before the cursor stay, the ones after it move up
  by one, so that the next card is under the cursor, and the card the engine returned is
  the last element. The cursor and \<open>reviewedCount\<close> are unchanged. This is
  \<^verbatim>\<open>handleReview\<close> of unnamed/part_002, and of unnamed/part_003 outside practice mode.
\<close>

theorem fail_requeues:
  assumes i: "currentCardIndex s < length (studyQueue s)"
  shows "\<exists>s'. handleReview True engine now 0 s = Inr s'
     \<and> (\<not> isPracticeMode s \<longrightarrow> handleReview_p3 True engine now 0 s = Inr s')
     \<and> length (studyQueue s') = length (studyQueue s)
     \<and> studyQueue s' = take (currentCardIndex s) (studyQueue s)
                         @ drop (Suc (currentCardIndex s)) (studyQueue s)
                         @ [engine now (studyQueue s ! currentCardIndex s) 0]
     \<and> last (studyQueue s') = engine now (studyQueue s ! currentCardIndex s) 0
     \<and> currentCardIndex s' = currentCardIndex s
     \<and> reviewedCount s' = reviewedCount s
     \<and> (Suc (currentCardIndex s) < length (studyQueue s) \<longrightarrow>
          studyQueue s' ! currentCardIndex s = studyQueue s ! Suc (currentCardIndex s))"
proof -
  have n: "(take (currentCardIndex s) (studyQueue s) @ drop (Suc (currentCardIndex s)) (studyQueue s)
            @ [engine now (studyQueue s ! currentCardIndex s) 0]) ! currentCardIndex s
           = studyQueue s ! Suc (currentCardIndex s)"
    if "Suc (currentCardIndex s) < length (studyQueue s)"
    using that by (simp add: nth_append)
  show ?thesis
    using i n by (simp add: handleReview_p3_study handleReview_fail)
qed

theorem fail_requeues_witness:
  "currentCardIndex session3 < length (studyQueue session3)
   \<and> \<not> isPracticeMode session3
   \<and> (\<exists>s'. handleReview True (calculateNextReview utcDays) 1000 0 session3 = Inr s'
         \<and> handleReview_p3 True (calculateNextReview utcDays) 1000 0 session3 = Inr s'
         \<and> studyQueue s' =
             [cardB, cardC,
              cardA\<lparr>lastReviewed := Some 1000, repetitions := 0, interval := 0, dueDate := 61000\<rparr>]
         \<and> length (studyQueue s') = 3
         \<and> currentCardIndex s' = 0
         \<and> reviewedCount s' = 0)"
  using fail_requeues [of session3 "calculateNextReview utcDays" 1000]
  by (auto simp: session3_def fail_flat)










text \<open>
  With an engine that always returns, the handlers for an engine that may throw are the
  handlers above.
\<close>

lemma handleReview_exn_returning:
  "handleReview_exn accepted (\<lambda>n c q. Some (engine n c q)) now quality s
     = handleReview accepted engine now quality s"
  by (simp add: handleReview_exn_def handleReview_def Let_def)

lemma handleReview_p3_exn_returning:
  "handleReview_p3_exn accepted (\<lambda>n c q. Some (engine n c q)) now quality s
     = handleReview_p3 accepted engine now quality s"
  by (simp add: handleReview_p3_exn_def handleReview_p3_def Let_def)





end
